theory Spec2Isabelle
  imports Main
begin

unbundle bit_operations_syntax

section \<open>JavaScript values and operators used by the simulator\<close>

text \<open>
  The simulator of \<^verbatim>\<open>src/JS/script.js\<close> keeps its registers, memory words, operands and
  immediates as JavaScript numbers. Every number the program computes is an integer
  (\<^verbatim>\<open>parseInt\<close> results and results of integer operators), \<^verbatim>\<open>NaN\<close>, or the value
  \<^verbatim>\<open>undefined\<close> read from an absent array element. Integers are modelled as \<open>int\<close>;
  this is exact while magnitudes stay below \<open>2 ^ 53\<close>, the range in which a double holds
  every integer. Negative zero is identified with zero: the program never distinguishes
  them (\<^verbatim>\<open>-0 === 0\<close>, \<^verbatim>\<open>-0 || d\<close> is \<^verbatim>\<open>d\<close>, and both print and index as \<^verbatim>\<open>0\<close>).
\<close>

datatype jsval = Num int | NaN | Undefined

text \<open>\<^verbatim>\<open>ToInt32\<close> and \<^verbatim>\<open>ToUint32\<close> on integers.\<close>

definition wrapInt32 :: "int \<Rightarrow> int" where
  "wrapInt32 n = (n + 2 ^ 31) mod 2 ^ 32 - 2 ^ 31"

definition wrapUint32 :: "int \<Rightarrow> int" where
  "wrapUint32 n = n mod 2 ^ 32"

text \<open>\<^verbatim>\<open>n | 0\<close>: \<^verbatim>\<open>NaN\<close> and \<^verbatim>\<open>undefined\<close> become 0.\<close>

fun toInt32 :: "jsval \<Rightarrow> int" where
  "toInt32 (Num n) = wrapInt32 n"
| "toInt32 NaN = 0"
| "toInt32 Undefined = 0"

text \<open>\<^verbatim>\<open>v >>> 0\<close>.\<close>

fun toUint32 :: "jsval \<Rightarrow> int" where
  "toUint32 (Num n) = wrapUint32 n"
| "toUint32 NaN = 0"
| "toUint32 Undefined = 0"

text \<open>
  The integer operators. Each converts its operands as the language prescribes
  (the count of a shift is taken \<^verbatim>\<open>ToUint32\<close> and masked to five bits) and yields a
  signed 32-bit result, except \<^verbatim>\<open>>>>\<close>, whose result is unsigned.
\<close>

definition js_and :: "int \<Rightarrow> int \<Rightarrow> int" where
  "js_and a b = wrapInt32 (wrapInt32 a AND wrapInt32 b)"

definition js_or :: "int \<Rightarrow> int \<Rightarrow> int" where
  "js_or a b = wrapInt32 (wrapInt32 a OR wrapInt32 b)"

definition js_xor :: "int \<Rightarrow> int \<Rightarrow> int" where
  "js_xor a b = wrapInt32 (wrapInt32 a XOR wrapInt32 b)"

definition shiftCount :: "int \<Rightarrow> nat" where
  "shiftCount b = nat (wrapUint32 b mod 32)"

definition js_shl :: "int \<Rightarrow> int \<Rightarrow> int" where
  "js_shl a b = wrapInt32 (wrapInt32 a * 2 ^ shiftCount b)"

definition js_sar :: "int \<Rightarrow> int \<Rightarrow> int" where
  "js_sar a b = wrapInt32 a div 2 ^ shiftCount b"

definition js_shr :: "int \<Rightarrow> int \<Rightarrow> int" where
  "js_shr a b = wrapUint32 a div 2 ^ shiftCount b"

text \<open>\<^verbatim>\<open>a + b\<close> on values: anything that is not a number makes the sum \<^verbatim>\<open>NaN\<close>.\<close>

fun js_add :: "jsval \<Rightarrow> jsval \<Rightarrow> jsval" where
  "js_add (Num a) (Num b) = Num (a + b)"
| "js_add _ _ = NaN"

text \<open>\<^verbatim>\<open>a % m\<close> for integers: the remainder takes the sign of the dividend.\<close>

definition js_rem :: "int \<Rightarrow> int \<Rightarrow> int" where
  "js_rem a m = (if a < 0 then - ((- a) mod \<bar>m\<bar>) else a mod \<bar>m\<bar>)"

text \<open>\<^verbatim>\<open>Math.floor(addr / 4) % 256\<close>.\<close>

fun memIndexOf :: "jsval \<Rightarrow> jsval" where
  "memIndexOf (Num a) = Num (js_rem (a div 4) 256)"
| "memIndexOf _ = NaN"

text \<open>
  \<^verbatim>\<open>v || d\<close> for a number \<^verbatim>\<open>d\<close>: 0, \<^verbatim>\<open>NaN\<close> and \<^verbatim>\<open>undefined\<close> are falsy, so the
  result is always a number.
\<close>

fun orDefault :: "jsval \<Rightarrow> int \<Rightarrow> int" where
  "orDefault (Num n) d = (if n = 0 then d else n)"
| "orDefault NaN d = d"
| "orDefault Undefined d = d"

text \<open>The comparisons \<^verbatim>\<open>===\<close>, \<^verbatim>\<open><\<close> and \<^verbatim>\<open>>=\<close>; \<^verbatim>\<open>undefined\<close> compares as \<^verbatim>\<open>NaN\<close>.\<close>

fun strictEq :: "jsval \<Rightarrow> jsval \<Rightarrow> bool" where
  "strictEq (Num a) (Num b) = (a = b)"
| "strictEq Undefined Undefined = True"
| "strictEq _ _ = False"

fun js_less :: "jsval \<Rightarrow> jsval \<Rightarrow> bool" where
  "js_less (Num a) (Num b) = (a < b)"
| "js_less _ _ = False"

fun js_geq :: "jsval \<Rightarrow> jsval \<Rightarrow> bool" where
  "js_geq (Num a) (Num b) = (a \<ge> b)"
| "js_geq _ _ = False"

text \<open>Reading \<^verbatim>\<open>xs[i]\<close> from the operand list: an absent element is \<^verbatim>\<open>undefined\<close>.\<close>

definition at :: "jsval list \<Rightarrow> nat \<Rightarrow> jsval" where
  "at xs i = (if i < length xs then xs ! i else Undefined)"

subsection \<open>Strings\<close>

text \<open>
  Instruction text is taken to be ASCII: a \<open>char\<close> is one byte, and the white space of
  \<^verbatim>\<open>trim\<close> and \<^verbatim>\<open>\s\<close> is tab, line feed, vertical tab, form feed, carriage return and
  space.
\<close>

definition isSpace :: "char \<Rightarrow> bool" where
  "isSpace c = (c \<in> set [CHR 0x09, CHR 0x0A, CHR 0x0B, CHR 0x0C, CHR 0x0D, CHR '' ''])"

definition trim :: "string \<Rightarrow> string" where
  "trim s = rev (dropWhile isSpace (rev (dropWhile isSpace s)))"

definition toLowerChar :: "char \<Rightarrow> char" where
  "toLowerChar c =
     (case map_of (zip ''ABCDEFGHIJKLMNOPQRSTUVWXYZ'' ''abcdefghijklmnopqrstuvwxyz'') c of
        Some l \<Rightarrow> l | None \<Rightarrow> c)"

definition toUpperChar :: "char \<Rightarrow> char" where
  "toUpperChar c =
     (case map_of (zip ''abcdefghijklmnopqrstuvwxyz'' ''ABCDEFGHIJKLMNOPQRSTUVWXYZ'') c of
        Some u \<Rightarrow> u | None \<Rightarrow> c)"

definition toLowerCase :: "string \<Rightarrow> string" where
  "toLowerCase s = map toLowerChar s"

definition toUpperCase :: "string \<Rightarrow> string" where
  "toUpperCase s = map toUpperChar s"

text \<open>
  \<^verbatim>\<open>s.split(/\s+/)\<close>: the pieces between maximal runs of white space. A run at the start
  or at the end of the string leaves an empty piece there, and the empty string splits
  into one empty piece. The flag says that the previous character was white space.
\<close>

fun splitGo :: "bool \<Rightarrow> string \<Rightarrow> string \<Rightarrow> string list" where
  "splitGo inSep cur [] = [rev cur]"
| "splitGo inSep cur (c # cs) =
     (if isSpace c
      then (if inSep then splitGo True cur cs else rev cur # splitGo True [] cs)
      else splitGo False (c # cur) cs)"

definition splitWs :: "string \<Rightarrow> string list" where
  "splitWs s = splitGo False [] s"

text \<open>
  \<^verbatim>\<open>parseInt(s)\<close> without a radix: leading white space is skipped, a sign is read, a
  prefix \<^verbatim>\<open>0x\<close> or \<^verbatim>\<open>0X\<close> selects radix 16, and the longest run of digits is
  converted; with no digit the result is \<^verbatim>\<open>NaN\<close>.
\<close>

definition digitValue :: "char \<Rightarrow> nat option" where
  "digitValue c =
     map_of (zip ''0123456789abcdef'' [0, 1, 2, 3, 4, 5, 6, 7, 8, 9, 10, 11, 12, 13, 14, 15] @
             zip ''ABCDEF'' [10, 11, 12, 13, 14, 15]) c"

definition isDigitIn :: "nat \<Rightarrow> char \<Rightarrow> bool" where
  "isDigitIn radix c = (case digitValue c of Some d \<Rightarrow> d < radix | None \<Rightarrow> False)"

definition digitsValue :: "nat \<Rightarrow> string \<Rightarrow> int" where
  "digitsValue radix ds = foldl (\<lambda>acc c. acc * int radix + int (the (digitValue c))) 0 ds"

definition parseDigits :: "nat \<Rightarrow> int \<Rightarrow> string \<Rightarrow> jsval" where
  "parseDigits radix sign s =
     (let z = takeWhile (isDigitIn radix) s
      in if z = [] then NaN else Num (sign * digitsValue radix z))"

definition parseInt :: "string \<Rightarrow> jsval" where
  "parseInt str =
     (let s = dropWhile isSpace str;
          sign = (if s \<noteq> [] \<and> hd s = CHR ''-'' then - 1 else 1);
          s1 = (if s \<noteq> [] \<and> (hd s = CHR ''+'' \<or> hd s = CHR ''-'') then tl s else s)
      in if take 2 s1 = ''0x'' \<or> take 2 s1 = ''0X''
         then parseDigits 16 sign (drop 2 s1)
         else parseDigits 10 sign s1)"

text \<open>Printing a value inside a template string.\<close>

function showDigits :: "int \<Rightarrow> string" where
  "showDigits n = (if n < 10 then [''0123456789'' ! nat n]
                   else showDigits (n div 10) @ [''0123456789'' ! nat (n mod 10)])"
  by pat_completeness auto
termination
  by (relation "measure nat") auto

declare showDigits.simps [simp del]

definition showInt :: "int \<Rightarrow> string" where
  "showInt i = (if i < 0 then CHR ''-'' # showDigits (- i) else showDigits i)"

fun showVal :: "jsval \<Rightarrow> string" where
  "showVal (Num n) = showInt n"
| "showVal NaN = ''NaN''"
| "showVal Undefined = ''undefined''"

section \<open>Decoding\<close>

text \<open>
  \<^verbatim>\<open>parseInstruction\<close> (lines 69--84): the text is trimmed, lower-cased, stripped of
  commas and split at white space; the first piece is the mnemonic, and each other piece
  is read with \<^verbatim>\<open>parseInt\<close>, after dropping a leading \<^verbatim>\<open>x\<close>.
\<close>

definition parseOperand :: "string \<Rightarrow> jsval" where
  "parseOperand r = (if take 1 r = ''x'' then parseInt (drop 1 r) else parseInt r)"

definition parseInstruction :: "string \<Rightarrow> string \<times> jsval list" where
  "parseInstruction instrText =
     (let parts = splitWs (filter (\<lambda>c. c \<noteq> CHR '','') (toLowerCase (trim instrText)))
      in (hd parts, map parseOperand (tl parts)))"

text \<open>
  The three lookup tables of \<^verbatim>\<open>getOpcodeValue\<close>, \<^verbatim>\<open>getFunct3\<close> and \<^verbatim>\<open>getFunct7\<close>
  (lines 91--163) are object literals read with \<^verbatim>\<open>table[mnemonic] || 0\<close>. A mnemonic
  that is a key of the table yields its number. Any other mnemonic is looked up along the
  prototype chain: the property names of \<^verbatim>\<open>Object.prototype\<close> yield the inherited
  function or object, which is truthy and is returned as it is; every other name yields
  \<^verbatim>\<open>undefined\<close> and so the default 0.
\<close>

datatype fieldval = Own nat | Inherited

definition objectPrototypeKeys :: "string list" where
  "objectPrototypeKeys =
     [''constructor'', ''__proto__'', ''hasOwnProperty'', ''isPrototypeOf'',
      ''propertyIsEnumerable'', ''toLocaleString'', ''toString'', ''valueOf'',
      ''__defineGetter__'', ''__defineSetter__'', ''__lookupGetter__'', ''__lookupSetter__'']"

definition lookupOr0 :: "(string \<times> nat) list \<Rightarrow> string \<Rightarrow> fieldval" where
  "lookupOr0 tbl mnemonic =
     (case map_of tbl mnemonic of
        Some v \<Rightarrow> Own v
      | None \<Rightarrow> if mnemonic \<in> set objectPrototypeKeys then Inherited else Own 0)"

definition opcodes :: "(string \<times> nat) list" where
  "opcodes =
     [(''add'', 51), (''sub'', 51), (''and'', 51), (''or'', 51), (''xor'', 51), (''slt'', 51),
      (''sltu'', 51), (''sll'', 51), (''srl'', 51), (''sra'', 51),
      (''addi'', 19), (''andi'', 19), (''ori'', 19), (''xori'', 19), (''slti'', 19),
      (''sltiu'', 19), (''slli'', 19), (''srli'', 19), (''srai'', 19),
      (''lw'', 3), (''lh'', 3), (''lb'', 3), (''lhu'', 3), (''lbu'', 3),
      (''sw'', 35), (''sh'', 35), (''sb'', 35),
      (''beq'', 99), (''bne'', 99), (''blt'', 99), (''bge'', 99), (''bltu'', 99),
      (''bgeu'', 99)]"

definition funct3Map :: "(string \<times> nat) list" where
  "funct3Map =
     [(''add'', 0), (''sub'', 0), (''sll'', 1), (''slt'', 2), (''sltu'', 3), (''xor'', 4),
      (''srl'', 5), (''sra'', 5), (''or'', 6), (''and'', 7),
      (''addi'', 0), (''slti'', 2), (''sltiu'', 3), (''xori'', 4), (''ori'', 6),
      (''andi'', 7), (''slli'', 1), (''srli'', 5), (''srai'', 5),
      (''lb'', 0), (''lh'', 1), (''lw'', 2), (''lbu'', 4), (''lhu'', 5),
      (''sb'', 0), (''sh'', 1), (''sw'', 2),
      (''beq'', 0), (''bne'', 1), (''blt'', 4), (''bge'', 5), (''bltu'', 6), (''bgeu'', 7)]"

definition funct7Map :: "(string \<times> nat) list" where
  "funct7Map = [(''sub'', 32), (''sra'', 32), (''srai'', 32)]"

definition getOpcodeValue :: "string \<Rightarrow> fieldval" where
  "getOpcodeValue mnemonic = lookupOr0 opcodes mnemonic"

definition getFunct3 :: "string \<Rightarrow> fieldval" where
  "getFunct3 mnemonic = lookupOr0 funct3Map mnemonic"

definition getFunct7 :: "string \<Rightarrow> fieldval" where
  "getFunct7 mnemonic = lookupOr0 funct7Map mnemonic"

section \<open>The ALU\<close>

text \<open>
  \<^verbatim>\<open>executeALU\<close> (lines 178--222). Both operands are converted with \<^verbatim>\<open>n | 0\<close>; the
  \<^verbatim>\<open>switch\<close> on \<^verbatim>\<open>funct3\<close> then returns the result of one JavaScript operator. The sum
  and the difference are returned as computed: no conversion is applied to them.
\<close>

definition executeALU :: "string \<Rightarrow> jsval \<Rightarrow> jsval \<Rightarrow> fieldval \<Rightarrow> fieldval \<Rightarrow> jsval" where
  "executeALU op a0 b0 f3 f7 =
     (let a = toInt32 a0; b = toInt32 b0
      in if f3 = Own 0 then (if f7 = Own 32 then Num (a - b) else Num (a + b))
         else if f3 = Own 1 then Num (js_shl a (js_and b 31))
         else if f3 = Own 2 then Num (if a < b then 1 else 0)
         else if f3 = Own 3 then Num (if wrapUint32 a < wrapUint32 b then 1 else 0)
         else if f3 = Own 4 then Num (js_xor a b)
         else if f3 = Own 5
              then (if f7 = Own 32 then Num (js_sar a (js_and b 31))
                    else Num (js_shr a (js_and b 31)))
         else if f3 = Own 6 then Num (js_or a b)
         else if f3 = Own 7 then Num (js_and a b)
         else Num 0)"

text \<open>
  The condition of a branch, the \<^verbatim>\<open>switch\<close> of lines 412--431. The register values
  are compared as they are stored; only the two unsigned cases convert them.
\<close>

definition takeBranch :: "fieldval \<Rightarrow> jsval \<Rightarrow> jsval \<Rightarrow> bool" where
  "takeBranch f3 val1 val2 =
     (if f3 = Own 0 then strictEq val1 val2
      else if f3 = Own 1 then \<not> strictEq val1 val2
      else if f3 = Own 4 then js_less val1 val2
      else if f3 = Own 5 then js_geq val1 val2
      else if f3 = Own 6 then toUint32 val1 < toUint32 val2
      else if f3 = Own 7 then toUint32 val1 \<ge> toUint32 val2
      else False)"

section \<open>Processor state\<close>

record controlSignals =
  RegWrite :: bool
  ALUSrc :: bool
  MemWrite :: bool
  MemRead :: bool
  MemToReg :: bool
  Branch :: bool
  ALUOp :: string

record internals =
  instruction :: string
  opcode :: jsval
  rd :: jsval
  rs1 :: jsval
  rs2 :: jsval
  funct3 :: jsval
  funct7 :: jsval
  imm :: jsval
  aluResult :: jsval
  readData1 :: jsval
  readData2 :: jsval
  memData :: jsval

text \<open>
  The two arrays are JavaScript objects: an element is read and written under any key the
  decoder produces (an integer, \<^verbatim>\<open>NaN\<close> or \<^verbatim>\<open>undefined\<close>), a write under a new key adds
  the property, and a key never written reads as \<^verbatim>\<open>undefined\<close>. They are functions from
  keys to values.
\<close>

record processor =
  registers :: "jsval \<Rightarrow> jsval"
  memory :: "jsval \<Rightarrow> jsval"
  pc :: int
  instructions :: "string list"
  controlSignals :: controlSignals
  internals :: internals
  executionLog :: "string list"
  isRunning :: bool

text \<open>\<^verbatim>\<open>Array(n).fill(0)\<close>.\<close>

definition zeroArray :: "int \<Rightarrow> jsval \<Rightarrow> jsval" where
  "zeroArray n = (\<lambda>k. case k of Num i \<Rightarrow> (if 0 \<le> i \<and> i < n then Num 0 else Undefined)
                        | NaN \<Rightarrow> Undefined | Undefined \<Rightarrow> Undefined)"

definition noSignals :: controlSignals where
  "noSignals = \<lparr>RegWrite = False, ALUSrc = False, MemWrite = False, MemRead = False,
                MemToReg = False, Branch = False, ALUOp = ''00''\<rparr>"

definition noInternals :: internals where
  "noInternals = \<lparr>instruction = '''', opcode = Num 0, rd = Num 0, rs1 = Num 0, rs2 = Num 0,
                  funct3 = Num 0, funct7 = Num 0, imm = Num 0, aluResult = Num 0,
                  readData1 = Num 0, readData2 = Num 0, memData = Num 0\<rparr>"

text \<open>The object \<^verbatim>\<open>processor\<close> as the script creates it (lines 8--58).\<close>

definition initialProcessor :: processor where
  "initialProcessor =
     \<lparr>registers = zeroArray 32, memory = zeroArray 256, pc = 0,
      instructions = [''addi x1, x0, 10'', ''addi x2, x0, 20'', ''add x3, x1, x2'',
                      ''sub x4, x2, x1''],
      controlSignals = noSignals, internals = noInternals, executionLog = [],
      isRunning = False\<rparr>"

text \<open>\<^verbatim>\<open>addToLog\<close> (lines 565--568); the rendering of the log is not modelled.\<close>

definition addToLog :: "string \<Rightarrow> processor \<Rightarrow> processor" where
  "addToLog message s = s\<lparr>executionLog := executionLog s @ [message]\<rparr>"

section \<open>Executing one instruction\<close>

text \<open>
  \<^verbatim>\<open>executeInstruction\<close> (lines 231--466) handles the five instruction classes in five
  sections; each section is one definition here. A section returns the state it leaves
  and the value of \<^verbatim>\<open>logMessage\<close>; the branch section also returns \<^verbatim>\<open>newPC\<close>. The
  arrow of the messages is the three bytes of its UTF-8 encoding. A local variable that
  shares its name with a field of \<^verbatim>\<open>internals\<close> carries a prime here.
\<close>

definition arrow :: string where
  "arrow = [CHR 0xE2, CHR 0x86, CHR 0x92]"

definition writeRegister :: "jsval \<Rightarrow> jsval \<Rightarrow> processor \<Rightarrow> processor" where
  "writeRegister rd' v s = (if rd' \<noteq> Num 0 then s\<lparr>registers := (registers s)(rd' := v)\<rparr> else s)"

definition execRType ::
  "string \<Rightarrow> jsval list \<Rightarrow> fieldval \<Rightarrow> fieldval \<Rightarrow> processor \<Rightarrow> processor \<times> string" where
  "execRType mnemonic regs funct3' funct7' s =
     (let rd' = at regs 0; rs1' = at regs 1; rs2' = at regs 2;
          val1 = registers s rs1'; val2 = registers s rs2';
          aluResult' = executeALU mnemonic val1 val2 funct3' funct7';
          s1 = writeRegister rd' aluResult' s;
          logMessage = toUpperCase mnemonic @ '' x'' @ showVal rd' @ '', x'' @ showVal rs1'
            @ '', x'' @ showVal rs2' @ '' '' @ arrow @ '' x'' @ showVal rd' @ '' = ''
            @ showVal aluResult';
          s2 = s1\<lparr>controlSignals :=
                 \<lparr>RegWrite = True, ALUSrc = False, MemWrite = False, MemRead = False,
                  MemToReg = False, Branch = False, ALUOp = ''10''\<rparr>\<rparr>;
          s3 = s2\<lparr>internals :=
                 (internals s2)\<lparr>readData1 := val1, readData2 := val2,
                                aluResult := aluResult'\<rparr>\<rparr>
      in (s3, logMessage))"

definition execIType ::
  "string \<Rightarrow> jsval list \<Rightarrow> fieldval \<Rightarrow> fieldval \<Rightarrow> processor \<Rightarrow> processor \<times> string" where
  "execIType mnemonic regs funct3' funct7' s =
     (let rd' = at regs 0; rs1' = at regs 1; imm' = at regs 2;
          val1 = registers s rs1';
          aluResult' = executeALU mnemonic val1 imm' funct3' funct7';
          s1 = writeRegister rd' aluResult' s;
          logMessage = toUpperCase mnemonic @ '' x'' @ showVal rd' @ '', x'' @ showVal rs1'
            @ '', '' @ showVal imm' @ '' '' @ arrow @ '' x'' @ showVal rd' @ '' = ''
            @ showVal aluResult';
          s2 = s1\<lparr>controlSignals :=
                 \<lparr>RegWrite = True, ALUSrc = True, MemWrite = False, MemRead = False,
                  MemToReg = False, Branch = False, ALUOp = ''10''\<rparr>\<rparr>;
          s3 = s2\<lparr>internals :=
                 (internals s2)\<lparr>readData1 := val1, readData2 := imm', imm := imm',
                                aluResult := aluResult'\<rparr>\<rparr>
      in (s3, logMessage))"

definition execLoad :: "string \<Rightarrow> jsval list \<Rightarrow> processor \<Rightarrow> processor \<times> string" where
  "execLoad mnemonic regs s =
     (let rd' = at regs 0; rs1' = at regs 1; offset = orDefault (at regs 2) 0;
          addr = js_add (registers s rs1') (Num offset);
          memIndex = memIndexOf addr;
          memValue = memory s memIndex;
          s1 = writeRegister rd' memValue s;
          logMessage = toUpperCase mnemonic @ '' x'' @ showVal rd' @ '', '' @ showInt offset
            @ ''(x'' @ showVal rs1' @ '') '' @ arrow @ '' x'' @ showVal rd' @ '' = MEM[''
            @ showVal addr @ ''] = '' @ showVal memValue;
          s2 = s1\<lparr>controlSignals :=
                 \<lparr>RegWrite = True, ALUSrc = True, MemWrite = False, MemRead = True,
                  MemToReg = True, Branch = False, ALUOp = ''00''\<rparr>\<rparr>;
          s3 = s2\<lparr>internals :=
                 (internals s2)\<lparr>readData1 := registers s2 rs1', imm := Num offset,
                                aluResult := addr, memData := memValue\<rparr>\<rparr>
      in (s3, logMessage))"

definition execStore :: "string \<Rightarrow> jsval list \<Rightarrow> processor \<Rightarrow> processor \<times> string" where
  "execStore mnemonic regs s =
     (let rs2' = at regs 0; rs1' = at regs 1; offset = orDefault (at regs 2) 0;
          addr = js_add (registers s rs1') (Num offset);
          memIndex = memIndexOf addr;
          s1 = s\<lparr>memory := (memory s)(memIndex := registers s rs2')\<rparr>;
          logMessage = toUpperCase mnemonic @ '' x'' @ showVal rs2' @ '', '' @ showInt offset
            @ ''(x'' @ showVal rs1' @ '') '' @ arrow @ '' MEM['' @ showVal addr @ ''] = ''
            @ showVal (registers s1 rs2');
          s2 = s1\<lparr>controlSignals :=
                 \<lparr>RegWrite = False, ALUSrc = True, MemWrite = True, MemRead = False,
                  MemToReg = False, Branch = False, ALUOp = ''00''\<rparr>\<rparr>;
          s3 = s2\<lparr>internals :=
                 (internals s2)\<lparr>readData1 := registers s2 rs1',
                                readData2 := registers s2 rs2', imm := Num offset,
                                aluResult := addr\<rparr>\<rparr>
      in (s3, logMessage))"

definition execBranch ::
  "string \<Rightarrow> jsval list \<Rightarrow> fieldval \<Rightarrow> processor \<Rightarrow> processor \<times> string \<times> int" where
  "execBranch mnemonic regs funct3' s =
     (let rs1' = at regs 0; rs2' = at regs 1; offset = orDefault (at regs 2) 1;
          val1 = registers s rs1'; val2 = registers s rs2';
          taken = takeBranch funct3' val1 val2;
          newPC = (if taken then pc s + offset else pc s + 1);
          logMessage =
            (if taken
             then toUpperCase mnemonic @ '' x'' @ showVal rs1' @ '', x'' @ showVal rs2' @ '', ''
               @ showInt offset @ '' '' @ arrow @ '' SALTO TOMADO (PC = '' @ showInt newPC
               @ '')''
             else toUpperCase mnemonic @ '' x'' @ showVal rs1' @ '', x'' @ showVal rs2' @ '', ''
               @ showInt offset @ '' '' @ arrow @ '' SALTO NO TOMADO'');
          s2 = s\<lparr>controlSignals :=
                 \<lparr>RegWrite = False, ALUSrc = False, MemWrite = False, MemRead = False,
                  MemToReg = False, Branch = True, ALUOp = ''01''\<rparr>\<rparr>;
          s3 = s2\<lparr>internals :=
                 (internals s2)\<lparr>readData1 := val1, readData2 := val2, imm := Num offset\<rparr>\<rparr>
      in (s3, logMessage, newPC))"

text \<open>
  The end of the function (lines 458--465): the program counter is set and the message is
  logged behind the index \<^verbatim>\<open>processor.pc - 1\<close>, read after the update.
\<close>

definition finishStep :: "processor \<Rightarrow> string \<Rightarrow> int \<Rightarrow> processor" where
  "finishStep s logMessage newPC =
     addToLog (''['' @ showInt (newPC - 1) @ ''] '' @ logMessage) (s\<lparr>pc := newPC\<rparr>)"

text \<open>
  A negative program counter passes the bound check of line 233 and reads
  \<^verbatim>\<open>undefined\<close> from the program; \<^verbatim>\<open>parseInstruction\<close> then throws a
  \<^verbatim>\<open>TypeError\<close> before anything has been changed.
\<close>

datatype error = TypeError

definition endOfProgram :: string where
  "endOfProgram = [CHR 0xE2, CHR 0x9A, CHR 0xA0] @ '' Fin del programa''"

definition executeInstruction :: "processor \<Rightarrow> error + processor" where
  "executeInstruction s =
     (if pc s \<ge> int (length (instructions s))
      then Inr ((addToLog endOfProgram s)\<lparr>isRunning := False\<rparr>)
      else if pc s < 0 then Inl TypeError
      else
        (let instrText = instructions s ! nat (pc s);
             (mnemonic, regs) = parseInstruction instrText;
             opcodeValue = getOpcodeValue mnemonic;
             funct3' = getFunct3 mnemonic;
             funct7' = getFunct7 mnemonic
         in if opcodeValue = Own 51
            then (let (s', logMessage) = execRType mnemonic regs funct3' funct7' s
                  in Inr (finishStep s' logMessage (pc s + 1)))
            else if opcodeValue = Own 19
            then (let (s', logMessage) = execIType mnemonic regs funct3' funct7' s
                  in Inr (finishStep s' logMessage (pc s + 1)))
            else if opcodeValue = Own 3
            then (let (s', logMessage) = execLoad mnemonic regs s
                  in Inr (finishStep s' logMessage (pc s + 1)))
            else if opcodeValue = Own 35
            then (let (s', logMessage) = execStore mnemonic regs s
                  in Inr (finishStep s' logMessage (pc s + 1)))
            else if opcodeValue = Own 99
            then (let (s', logMessage, newPC) = execBranch mnemonic regs funct3' s
                  in Inr (finishStep s' logMessage newPC))
            else Inr (finishStep s '''' (pc s + 1))))"

section \<open>Control\<close>

text \<open>\<^verbatim>\<open>stepExecution\<close> (lines 475--479).\<close>

definition stepExecution :: "processor \<Rightarrow> error + processor" where
  "stepExecution s =
     (if pc s < int (length (instructions s)) then executeInstruction s else Inr s)"

text \<open>
  The object \<^verbatim>\<open>processor\<close> after a call of \<^verbatim>\<open>stepExecution\<close>: a call that throws
  leaves it as it was.
\<close>

definition afterStep :: "processor \<Rightarrow> processor" where
  "afterStep s = (case stepExecution s of Inl e \<Rightarrow> s | Inr s' \<Rightarrow> s')"

text \<open>
  \<^verbatim>\<open>runProgram\<close> (lines 484--496) sets the flag and starts an interval timer. One firing
  of the timer is \<open>runTick\<close>; the flag it returns says whether the timer stays scheduled
  (\<^verbatim>\<open>clearInterval\<close> was not called).
\<close>

definition runProgram :: "processor \<Rightarrow> processor" where
  "runProgram s = s\<lparr>isRunning := True\<rparr>"

definition runTick :: "processor \<Rightarrow> error + processor \<times> bool" where
  "runTick s =
     (if pc s < int (length (instructions s)) \<and> isRunning s
      then (case executeInstruction s of Inl e \<Rightarrow> Inl e | Inr s' \<Rightarrow> Inr (s', True))
      else Inr (s\<lparr>isRunning := False\<rparr>, False))"

text \<open>\<^verbatim>\<open>resetProcessor\<close> (lines 501--532); the program is not touched.\<close>

definition resetProcessor :: "processor \<Rightarrow> processor" where
  "resetProcessor s =
     s\<lparr>registers := zeroArray 32, memory := zeroArray 256, pc := 0, executionLog := [],
       isRunning := False, controlSignals := noSignals, internals := noInternals\<rparr>"

text \<open>
  The handle of the interval timer is a local constant of \<^verbatim>\<open>runProgram\<close> (line 487):
  only the timer's own callback can clear it, and \<^verbatim>\<open>resetProcessor\<close> contains no
  \<^verbatim>\<open>clearInterval\<close>. A page is the processor together with the number of interval
  timers that are scheduled. Clicking Run calls \<^verbatim>\<open>runProgram\<close>, which sets the flag and
  schedules one more timer; clicking Reset calls \<^verbatim>\<open>resetProcessor\<close>, which leaves the
  timers alone; a firing of a timer runs the callback, which unschedules that timer in
  its \<^verbatim>\<open>else\<close> branch. A callback that throws leaves processor and timer as they were.
\<close>

type_synonym page = "processor \<times> nat"

definition clickRun :: "page \<Rightarrow> page" where
  "clickRun w = (runProgram (fst w), Suc (snd w))"

definition clickReset :: "page \<Rightarrow> page" where
  "clickReset w = (resetProcessor (fst w), snd w)"

definition timerFires :: "page \<Rightarrow> page" where
  "timerFires w =
     (if snd w = 0 then w
      else (case runTick (fst w) of
              Inl e \<Rightarrow> w
            | Inr (s', keep) \<Rightarrow> (s', if keep then snd w else snd w - 1)))"

text \<open>\<^verbatim>\<open>addInstruction\<close> (lines 538--543).\<close>

definition addInstruction :: "string \<Rightarrow> processor \<Rightarrow> processor" where
  "addInstruction instr s =
     (if trim instr \<noteq> [] then s\<lparr>instructions := instructions s @ [trim instr]\<rparr> else s)"

text \<open>
  \<^verbatim>\<open>deleteInstruction\<close> (lines 549--559). \<^verbatim>\<open>splice(index, 1)\<close> counts a negative index
  from the end, clamps the start to the array and removes at most one element.
\<close>

definition splice1 :: "int \<Rightarrow> 'a list \<Rightarrow> 'a list" where
  "splice1 index xs =
     (let len = int (length xs);
          start = (if index < 0 then max (len + index) 0 else min index len);
          deleteCount = min 1 (len - start)
      in take (nat start) xs @ drop (nat (start + deleteCount)) xs)"

definition deleteInstruction :: "int \<Rightarrow> processor \<Rightarrow> processor" where
  "deleteInstruction index s =
     (let s1 = s\<lparr>instructions := splice1 index (instructions s)\<rparr>
      in if pc s1 \<ge> int (length (instructions s1)) then s1\<lparr>pc := 0\<rparr> else s1)"

section \<open>Sequences of steps and concrete inputs\<close>

text \<open>
  \<open>steps n\<close> is \<open>n\<close> calls of \<^verbatim>\<open>stepExecution\<close> in a row, given up at the first
  call that throws.
\<close>

fun steps :: "nat \<Rightarrow> processor \<Rightarrow> error + processor" where
  "steps 0 s = Inr s"
| "steps (Suc n) s = (case stepExecution s of Inl e \<Rightarrow> Inl e | Inr s' \<Rightarrow> steps n s')"

definition overflowProgram :: processor where
  "overflowProgram = initialProcessor\<lparr>instructions :=
     [''addi x1, x0, 2147483647'', ''addi x2, x1, 1'', ''add x3, x1, x1'']\<rparr>"

definition constructorProgram :: processor where
  "constructorProgram = initialProcessor\<lparr>instructions := [''constructor x1, x2, 3'']\<rparr>"

definition storeLoadProgram :: processor where
  "storeLoadProgram = initialProcessor
     \<lparr>registers := (zeroArray 32)(Num 5 := Num 42, Num 6 := Num 8),
      instructions := [''sw x5, 0(x6)'', ''lw x7, 0(x6)'']\<rparr>"



text \<open>
  Run, Reset and Run again, clicked within one period of the timer, and then one firing
  of each of the two timers.
\<close>

definition runResetRun :: page where
  "runResetRun =
     timerFires (timerFires (clickRun (clickReset (clickRun (initialProcessor, 0)))))"

definition beqProgram :: processor where
  "beqProgram = initialProcessor\<lparr>instructions := [''beq x1, x2, 2'']\<rparr>"

definition beqZeroProgram :: processor where
  "beqZeroProgram = initialProcessor\<lparr>instructions := [''beq x1, x2, 0'']\<rparr>"

definition atLastInstruction :: processor where
  "atLastInstruction = initialProcessor\<lparr>pc := 3\<rparr>"

definition finishedProgram :: processor where
  "finishedProgram = initialProcessor\<lparr>pc := 4\<rparr>"

section \<open>Decoding the instructions of the examples\<close>

lemma parse_beq2: "parseInstruction ''beq x1, x2, 2'' = (''beq'', [Num 1, Num 2, Num 2])"
  by code_simp

lemma parse_beq1: "parseInstruction ''beq x1, x2, 1'' = (''beq'', [Num 1, Num 2, Num 1])"
  by code_simp

lemma parse_beq0: "parseInstruction ''beq x1, x2, 0'' = (''beq'', [Num 1, Num 2, Num 0])"
  by code_simp

lemma parse_beq_short: "parseInstruction ''beq x1, x2'' = (''beq'', [Num 1, Num 2])"
  by code_simp

lemma parse_sw: "parseInstruction ''sw x5, 0(x6)'' = (''sw'', [Num 5, Num 0])"
  by code_simp

lemma parse_lw: "parseInstruction ''lw x7, 0(x6)'' = (''lw'', [Num 7, Num 0])"
  by code_simp

lemma decode_beq: "getOpcodeValue ''beq'' = Own 99" "getFunct3 ''beq'' = Own 0"
  by code_simp+

lemma decode_sw: "getOpcodeValue ''sw'' = Own 35"
  by code_simp

lemma decode_lw: "getOpcodeValue ''lw'' = Own 3"
  by code_simp




lemma strictEq_iff: "strictEq v w \<longleftrightarrow> v = w \<and> v \<noteq> NaN"
  by (cases v; cases w) simp_all

lemma steps_2:
  "steps 2 s = (case stepExecution s of Inl e \<Rightarrow> Inl e | Inr s' \<Rightarrow> stepExecution s')"
  by (simp add: numeral_2_eq_2 split: sum.splits)

section \<open>Arithmetic of the ALU\<close>

text \<open>
  The register-register and register-immediate sections write the result of the ALU to
  the destination register, and the ALU adds and subtracts the converted operands
  without converting the result.
\<close>

lemma execRType_writes_alu_result:
  assumes "at regs 0 \<noteq> Num 0"
  shows "registers (fst (execRType m regs f3 f7 s)) (at regs 0)
           = executeALU m (registers s (at regs 1)) (registers s (at regs 2)) f3 f7"
  using assms by (simp add: execRType_def Let_def writeRegister_def)

lemma execIType_writes_alu_result:
  assumes "at regs 0 \<noteq> Num 0"
  shows "registers (fst (execIType m regs f3 f7 s)) (at regs 0)
           = executeALU m (registers s (at regs 1)) (at regs 2) f3 f7"
  using assms by (simp add: execIType_def Let_def writeRegister_def)

lemma executeALU_add_sub:
  "executeALU m a b (Own 0) (Own 0) = Num (toInt32 a + toInt32 b)"
  "executeALU m a b (Own 0) (Own 32) = Num (toInt32 a - toInt32 b)"
  by (simp_all add: executeALU_def Let_def)

text \<open>
  C1. The claim asks that sums and differences written to a register wrap around modulo
  \<open>2 ^ 32\<close>. The ALU converts its operands to 32 bits but returns \<^verbatim>\<open>a + b\<close> and
  \<^verbatim>\<open>a - b\<close> as computed. After \<^verbatim>\<open>addi x1, x0, 2147483647\<close>, \<^verbatim>\<open>addi x2, x1, 1\<close> and
  \<^verbatim>\<open>add x3, x1, x1\<close> from the initial state, register 2 holds 2147483648 and register 3
  holds 4294967294, where 32-bit wrap-around gives -2147483648 and -2.
\<close>

theorem add_overflow_is_not_wrapped:
  "(case steps 3 overflowProgram of
      Inl e \<Rightarrow> None
    | Inr s \<Rightarrow> Some (map (registers s) [Num 1, Num 2, Num 3]))
     = Some [Num 2147483647, Num 2147483648, Num 4294967294]
   \<and> wrapInt32 (2147483647 + 1) = - 2147483648
   \<and> wrapInt32 (2147483647 + 2147483647) = - 2"
  by code_simp

lemma wrapInt32_id: "- (2 ^ 31) \<le> n \<Longrightarrow> n < 2 ^ 31 \<Longrightarrow> wrapInt32 n = n"
  by (simp add: wrapInt32_def)












section \<open>Register 0\<close>

lemma writeRegister_x0: "registers (writeRegister r v s) (Num 0) = registers s (Num 0)"
  by (simp add: writeRegister_def)

lemma execRType_x0: "registers (fst (execRType m regs f3 f7 s)) (Num 0) = registers s (Num 0)"
  by (simp add: execRType_def Let_def writeRegister_x0)

lemma execIType_x0: "registers (fst (execIType m regs f3 f7 s)) (Num 0) = registers s (Num 0)"
  by (simp add: execIType_def Let_def writeRegister_x0)

lemma execLoad_x0: "registers (fst (execLoad m regs s)) (Num 0) = registers s (Num 0)"
  by (simp add: execLoad_def Let_def writeRegister_x0)

lemma execStore_x0: "registers (fst (execStore m regs s)) (Num 0) = registers s (Num 0)"
  by (simp add: execStore_def Let_def)

lemma execBranch_x0: "registers (fst (execBranch m regs f3 s)) (Num 0) = registers s (Num 0)"
  by (simp add: execBranch_def Let_def)

lemma finishStep_registers: "registers (finishStep s msg n) = registers s"
  by (simp add: finishStep_def addToLog_def)

lemma executeInstruction_x0:
  assumes "executeInstruction s = Inr s'"
  shows "registers s' (Num 0) = registers s (Num 0)"
proof (cases "pc s \<ge> int (length (instructions s))")
  case True
  with assms show ?thesis
    by (auto simp add: executeInstruction_def addToLog_def)
next
  case False
  then have inside: "\<not> pc s \<ge> int (length (instructions s))" .
  have nonneg: "\<not> pc s < 0"
    using assms inside by (auto simp add: executeInstruction_def)
  obtain m regs where p: "parseInstruction (instructions s ! nat (pc s)) = (m, regs)"
    by (cases "parseInstruction (instructions s ! nat (pc s))") auto
  let ?op = "getOpcodeValue m"
  consider (r) "?op = Own 51" | (i) "?op = Own 19" | (l) "?op = Own 3" | (st) "?op = Own 35"
    | (b) "?op = Own 99"
    | (none) "?op \<noteq> Own 51" "?op \<noteq> Own 19" "?op \<noteq> Own 3" "?op \<noteq> Own 35"
        "?op \<noteq> Own 99"
    by blast
  then show ?thesis
  proof cases
    case r
    with assms inside nonneg p
    have "s' = finishStep (fst (execRType m regs (getFunct3 m) (getFunct7 m) s))
        (snd (execRType m regs (getFunct3 m) (getFunct7 m) s)) (pc s + 1)"
      by (simp add: executeInstruction_def Let_def split_beta)
    then show ?thesis
      by (simp add: finishStep_registers execRType_x0)
  next
    case i
    with assms inside nonneg p
    have "s' = finishStep (fst (execIType m regs (getFunct3 m) (getFunct7 m) s))
        (snd (execIType m regs (getFunct3 m) (getFunct7 m) s)) (pc s + 1)"
      by (simp add: executeInstruction_def Let_def split_beta)
    then show ?thesis
      by (simp add: finishStep_registers execIType_x0)
  next
    case l
    with assms inside nonneg p
    have "s' = finishStep (fst (execLoad m regs s)) (snd (execLoad m regs s)) (pc s + 1)"
      by (simp add: executeInstruction_def Let_def split_beta)
    then show ?thesis
      by (simp add: finishStep_registers execLoad_x0)
  next
    case st
    with assms inside nonneg p
    have "s' = finishStep (fst (execStore m regs s)) (snd (execStore m regs s)) (pc s + 1)"
      by (simp add: executeInstruction_def Let_def split_beta)
    then show ?thesis
      by (simp add: finishStep_registers execStore_x0)
  next
    case b
    with assms inside nonneg p
    have "s' = finishStep (fst (execBranch m regs (getFunct3 m) s))
        (fst (snd (execBranch m regs (getFunct3 m) s)))
        (snd (snd (execBranch m regs (getFunct3 m) s)))"
      by (simp add: executeInstruction_def Let_def split_beta)
    then show ?thesis
      by (simp add: finishStep_registers execBranch_x0)
  next
    case none
    with assms inside nonneg p
    have "s' = finishStep s [] (pc s + 1)"
      by (simp add: executeInstruction_def Let_def split_beta)
    then show ?thesis
      by (simp add: finishStep_registers)
  qed
qed

lemma afterStep_x0: "registers (afterStep s) (Num 0) = registers s (Num 0)"
  by (auto simp add: afterStep_def stepExecution_def executeInstruction_x0 split: sum.splits)

lemma funpow_afterStep_x0: "registers ((afterStep ^^ n) s) (Num 0) = registers s (Num 0)"
  by (induction n) (simp_all add: afterStep_x0)

text \<open>
  C2. No number of calls of \<^verbatim>\<open>stepExecution\<close> changes register 0, whatever the state
  and the program; started from the initial state with any program, register 0 is 0
  after every step. This covers the instructions of every class whose destination
  operand is register 0.
\<close>

theorem register_zero_never_written:
  "registers ((afterStep ^^ n) s) (Num 0) = registers s (Num 0)
   \<and> registers ((afterStep ^^ n) (initialProcessor\<lparr>instructions := prog\<rparr>)) (Num 0) = Num 0"
  by (simp add: funpow_afterStep_x0 initialProcessor_def zeroArray_def)

section \<open>Unknown mnemonics\<close>

text \<open>
  An instruction whose opcode value is none of the five class codes changes only the
  program counter and the log, which receives the index and an empty message.
\<close>

lemma unknown_opcode_falls_through:
  assumes "0 \<le> pc s" and "pc s < int (length (instructions s))"
    and "getOpcodeValue (fst (parseInstruction (instructions s ! nat (pc s))))
           \<notin> {Own 51, Own 19, Own 3, Own 35, Own 99}"
  shows "executeInstruction s
           = Inr (s\<lparr>pc := pc s + 1,
                    executionLog := executionLog s @ [''['' @ showInt (pc s) @ ''] '']\<rparr>)"
  using assms
  by (simp add: executeInstruction_def Let_def split_beta finishStep_def addToLog_def)

lemma unknown_mnemonic_opcode:
  assumes "map_of opcodes m = None"
  shows "getOpcodeValue m = (if m \<in> set objectPrototypeKeys then Inherited else Own 0)"
  using assms by (simp add: getOpcodeValue_def lookupOr0_def)

text \<open>
  C3. The claim asks that every mnemonic outside the lookup table decodes to opcode 0.
  The mnemonic \<^verbatim>\<open>constructor\<close> is outside the table, and \<^verbatim>\<open>getOpcodeValue\<close> returns
  for it the function inherited from \<^verbatim>\<open>Object.prototype\<close>, not 0. The step itself
  still falls through: the program counter becomes 1 and the log receives the index
  with an empty message.
\<close>

theorem constructor_mnemonic_decodes_to_inherited:
  "map_of opcodes (fst (parseInstruction ''constructor x1, x2, 3'')) = None
   \<and> getOpcodeValue (fst (parseInstruction ''constructor x1, x2, 3'')) = Inherited
   \<and> (case steps 1 constructorProgram of
        Inl e \<Rightarrow> None
      | Inr s \<Rightarrow> Some (pc s, executionLog s)) = Some (1, [''[0] ''])"
  by code_simp

section \<open>The starter program\<close>

text \<open>
  C4. Four steps from the initial state, whose program is \<^verbatim>\<open>addi x1, x0, 10\<close>,
  \<^verbatim>\<open>addi x2, x0, 20\<close>, \<^verbatim>\<open>add x3, x1, x2\<close>, \<^verbatim>\<open>sub x4, x2, x1\<close>, all return normally and
  leave 10, 20, 30 and 10 in registers 1 to 4, the program counter at 4 and four entries
  in the log.
\<close>

theorem starter_program_run:
  "(case steps 4 initialProcessor of
      Inl e \<Rightarrow> None
    | Inr s \<Rightarrow> Some (map (registers s) [Num 1, Num 2, Num 3, Num 4], pc s,
                      length (executionLog s)))
   = Some ([Num 10, Num 20, Num 30, Num 10], 4, 4)"
  by code_simp

section \<open>Store and load\<close>

text \<open>
  C5. When the next two instructions are \<^verbatim>\<open>sw x5, 0(x6)\<close> and \<^verbatim>\<open>lw x7, 0(x6)\<close>, the two
  steps return normally and register 7 then holds the value register 5 had before the
  store, whatever the registers and the memory held. (The decoder reads the operand
  \<^verbatim>\<open>0(x6)\<close> as the number 0, so both instructions address through register 0.)
\<close>

theorem store_then_load:
  assumes "0 \<le> pc s" and "pc s + 1 < int (length (instructions s))"
    and "instructions s ! nat (pc s) = ''sw x5, 0(x6)''"
    and "instructions s ! nat (pc s + 1) = ''lw x7, 0(x6)''"
  shows "\<exists>s2. steps 2 s = Inr s2 \<and> registers s2 (Num 7) = registers s (Num 5)"
proof -
  let ?s1 = "finishStep (fst (execStore ''sw'' [Num 5, Num 0] s))
               (snd (execStore ''sw'' [Num 5, Num 0] s)) (pc s + 1)"
  have one: "stepExecution s = Inr ?s1"
    using assms
    by (simp add: stepExecution_def executeInstruction_def parse_sw decode_sw Let_def
        split_beta)
  have pc1: "pc ?s1 = pc s + 1" and ins1: "instructions ?s1 = instructions s"
    and regs1: "registers ?s1 = registers s"
    and mem1: "memory ?s1 (memIndexOf (js_add (registers s (Num 0)) (Num 0)))
                 = registers s (Num 5)"
    by (simp_all add: finishStep_def addToLog_def execStore_def Let_def at_def)
  let ?s2 = "finishStep (fst (execLoad ''lw'' [Num 7, Num 0] ?s1))
               (snd (execLoad ''lw'' [Num 7, Num 0] ?s1)) (pc ?s1 + 1)"
  have two: "stepExecution ?s1 = Inr ?s2"
    using assms pc1 ins1
    by (simp add: stepExecution_def executeInstruction_def parse_lw decode_lw Let_def
        split_beta del: One_nat_def)
  have "registers ?s2 (Num 7)
      = memory ?s1 (memIndexOf (js_add (registers ?s1 (Num 0)) (Num 0)))"
    by (simp add: finishStep_def addToLog_def execLoad_def Let_def at_def writeRegister_def)
  then have "registers ?s2 (Num 7) = registers s (Num 5)"
    using regs1 mem1 by simp
  then show ?thesis
    using one two by (simp add: steps_2)
qed

theorem store_then_load_witness:
  "\<exists>s2. steps 2 storeLoadProgram = Inr s2 \<and> registers s2 (Num 7) = Num 42"
  using store_then_load [of storeLoadProgram]
  by (simp add: storeLoadProgram_def initialProcessor_def)

section \<open>Branches\<close>

text \<open>
  C6. When the instruction at the program counter is \<^verbatim>\<open>beq x1, x2, 2\<close>, executing it
  returns normally, and the new program counter is the old one plus 2 if the values of
  registers 1 and 2 are equal (as \<^verbatim>\<open>===\<close> compares them: a \<^verbatim>\<open>NaN\<close> equals nothing), and
  the old one plus 1 otherwise.
\<close>

theorem beq_offset_two:
  assumes "0 \<le> pc s" and "pc s < int (length (instructions s))"
    and "instructions s ! nat (pc s) = ''beq x1, x2, 2''"
  shows "\<exists>s'. executeInstruction s = Inr s' \<and>
           pc s' = (if registers s (Num 1) = registers s (Num 2) \<and> registers s (Num 1) \<noteq> NaN
                    then pc s + 2 else pc s + 1)"
  using assms
  by (auto simp add: executeInstruction_def parse_beq2 decode_beq execBranch_def
      finishStep_def addToLog_def at_def takeBranch_def strictEq_iff Let_def)

theorem beq_offset_two_witness:
  "\<exists>s'. executeInstruction beqProgram = Inr s' \<and> pc s' = 2"
  using beq_offset_two [of beqProgram]
  by (simp add: beqProgram_def initialProcessor_def zeroArray_def)

lemma execBranch_offset_zero:
  assumes "at regs 2 = Num 0"
  shows "execBranch m (regs[2 := Num 1]) f3 s = execBranch m regs f3 s"
    and "execBranch m (take 2 regs) f3 s = execBranch m regs f3 s"
    and "snd (snd (execBranch m regs f3 s)) = pc s + 1"
    and "imm (internals (fst (execBranch m regs f3 s))) = Num 1"
  using assms by (auto simp add: execBranch_def Let_def at_def)

lemma execBranch_instructions:
  "execBranch m regs f3 (s\<lparr>instructions := p\<rparr>)
     = (case execBranch m regs f3 s of (s', msg, n) \<Rightarrow> (s'\<lparr>instructions := p\<rparr>, msg, n))"
  by (simp add: execBranch_def Let_def)

lemma finishStep_instructions:
  "finishStep (s\<lparr>instructions := p\<rparr>) msg n = (finishStep s msg n)\<lparr>instructions := p\<rparr>"
  by (simp add: finishStep_def addToLog_def)

lemma finishStep_pc_imm:
  "pc (finishStep s msg n) = n" "internals (finishStep s msg n) = internals s"
  by (simp_all add: finishStep_def addToLog_def)

text \<open>
  C10. Let the instruction at the program counter be a branch whose third operand is the
  number 0. Executing it returns normally with the program counter advanced by 1, taken
  or not, and with 1 recorded as the immediate; and the state it leaves is the state
  left by the same branch written with the offset 1, and by the same branch written
  without a third operand.
\<close>

theorem branch_offset_zero_is_one:
  assumes "0 \<le> pc s" and "pc s < int (length (instructions s))"
    and "parseInstruction (instructions s ! nat (pc s)) = (m, regs)"
    and "getOpcodeValue m = Own 99"
    and "at regs 2 = Num 0"
    and "parseInstruction t1 = (m, regs[2 := Num 1])"
    and "parseInstruction t2 = (m, take 2 regs)"
  shows "\<exists>s'. executeInstruction s = Inr s' \<and> pc s' = pc s + 1
           \<and> imm (internals s') = Num 1
           \<and> executeInstruction (s\<lparr>instructions := (instructions s)[nat (pc s) := t1]\<rparr>)
               = Inr (s'\<lparr>instructions := (instructions s)[nat (pc s) := t1]\<rparr>)
           \<and> executeInstruction (s\<lparr>instructions := (instructions s)[nat (pc s) := t2]\<rparr>)
               = Inr (s'\<lparr>instructions := (instructions s)[nat (pc s) := t2]\<rparr>)"
proof -
  obtain s0 msg n where eb: "execBranch m regs (getFunct3 m) s = (s0, msg, n)"
    by (cases "execBranch m regs (getFunct3 m) s") auto
  note zero = execBranch_offset_zero [OF assms(5), of m "getFunct3 m" s]
  have n: "n = pc s + 1" and imm0: "imm (internals s0) = Num 1"
    using zero(3,4) eb by simp_all
  have eb1: "execBranch m (regs[2 := Num 1]) (getFunct3 m) s = (s0, msg, n)"
    and eb2: "execBranch m (take 2 regs) (getFunct3 m) s = (s0, msg, n)"
    using zero(1,2) eb by simp_all
  have run: "executeInstruction s = Inr (finishStep s0 msg n)"
    using assms(1-4) eb by (simp add: executeInstruction_def Let_def)
  have nth: "(instructions s)[nat (pc s) := t] ! nat (pc s) = t" for t
    using assms(1,2) by simp
  have run1: "executeInstruction (s\<lparr>instructions := (instructions s)[nat (pc s) := t1]\<rparr>)
      = Inr ((finishStep s0 msg n)\<lparr>instructions := (instructions s)[nat (pc s) := t1]\<rparr>)"
    using assms(1,2,4,6) eb1 nth
    by (simp add: executeInstruction_def Let_def execBranch_instructions
        finishStep_instructions)
  have run2: "executeInstruction (s\<lparr>instructions := (instructions s)[nat (pc s) := t2]\<rparr>)
      = Inr ((finishStep s0 msg n)\<lparr>instructions := (instructions s)[nat (pc s) := t2]\<rparr>)"
    using assms(1,2,4,7) eb2 nth
    by (simp add: executeInstruction_def Let_def execBranch_instructions
        finishStep_instructions)
  show ?thesis
    using run run1 run2 n imm0 by (simp add: finishStep_pc_imm)
qed

theorem branch_offset_zero_is_one_witness:
  "\<exists>s'. executeInstruction beqZeroProgram = Inr s' \<and> pc s' = 1
      \<and> imm (internals s') = Num 1
      \<and> executeInstruction (beqZeroProgram\<lparr>instructions := [''beq x1, x2, 1'']\<rparr>)
            = Inr (s'\<lparr>instructions := [''beq x1, x2, 1'']\<rparr>)
      \<and> executeInstruction (beqZeroProgram\<lparr>instructions := [''beq x1, x2'']\<rparr>)
            = Inr (s'\<lparr>instructions := [''beq x1, x2'']\<rparr>)"
  using branch_offset_zero_is_one [of beqZeroProgram "''beq''" "[Num 1, Num 2, Num 0]"
      "''beq x1, x2, 1''" "''beq x1, x2''"]
  by (simp add: beqZeroProgram_def initialProcessor_def parse_beq0 parse_beq1 parse_beq_short
      decode_beq at_def)

section \<open>Reset\<close>

lemma zeroArray_map:
  "map (zeroArray (int n)) (map (\<lambda>i. Num (int i)) [0..<n]) = replicate n (Num 0)"
  by (rule nth_equalityI) (simp_all add: zeroArray_def)

text \<open>
  Whatever the state, \<^verbatim>\<open>resetProcessor\<close> leaves the object that the script creates at
  start-up, with the current program in place of the starter program: the registers 0
  to 31 and the memory words 0 to 255 are zero, the program counter is 0, the log is
  empty and the run flag is off. Resetting twice is resetting once.
\<close>

lemma resetProcessor_snapshot:
  "resetProcessor s = initialProcessor\<lparr>instructions := instructions s\<rparr>
   \<and> resetProcessor (resetProcessor s) = resetProcessor s
   \<and> map (registers (resetProcessor s)) (map (\<lambda>i. Num (int i)) [0..<32]) = replicate 32 (Num 0)
   \<and> map (memory (resetProcessor s)) (map (\<lambda>i. Num (int i)) [0..<256]) = replicate 256 (Num 0)
   \<and> pc (resetProcessor s) = 0
   \<and> executionLog (resetProcessor s) = []
   \<and> isRunning (resetProcessor s) = False
   \<and> runTick (resetProcessor s) = Inr (resetProcessor s, False)"
proof -
  have regs: "registers (resetProcessor s) = zeroArray (int 32)"
    and mem: "memory (resetProcessor s) = zeroArray (int 256)"
    by (simp_all add: resetProcessor_def)
  have z32: "map (registers (resetProcessor s)) (map (\<lambda>i. Num (int i)) [0..<32])
      = replicate 32 (Num 0)"
    unfolding regs by (rule zeroArray_map)
  have z256: "map (memory (resetProcessor s)) (map (\<lambda>i. Num (int i)) [0..<256])
      = replicate 256 (Num 0)"
    unfolding mem by (rule zeroArray_map)
  have snap: "resetProcessor s = initialProcessor\<lparr>instructions := instructions s\<rparr>"
    by (cases s) (simp add: resetProcessor_def initialProcessor_def)
  have idem: "resetProcessor (resetProcessor s) = resetProcessor s"
    by (simp add: resetProcessor_def)
  have tick: "runTick (resetProcessor s) = Inr (resetProcessor s, False)"
    by (simp add: runTick_def resetProcessor_def)
  have rest: "pc (resetProcessor s) = 0" "executionLog (resetProcessor s) = []"
    "isRunning (resetProcessor s) = False"
    by (simp_all add: resetProcessor_def)
  from snap idem z32 z256 rest tick show ?thesis
    by (intro conjI)
qed

text \<open>
  A timer that fires after a reset, with no new run started in between, executes nothing
  and is unscheduled.
\<close>

lemma reset_then_firing_clears_timer:
  "timerFires (clickReset (s, Suc n)) = (resetProcessor s, n)"
  by (simp add: timerFires_def clickReset_def runTick_def resetProcessor_def)

text \<open>
  C8. The claim asks that a reset cancels any run in flight. A reset turns the run flag
  off and leaves the timer of the run scheduled: after Run and Reset one timer is
  still scheduled. When Run is clicked again before that timer fires, the flag is on
  again, and both timers execute instructions: after one firing of each, two timers are
  scheduled, the program counter is 2 and the run flag is on.
\<close>

theorem reset_leaves_run_timer_scheduled:
  "snd (clickReset (clickRun (initialProcessor, 0))) = 1
   \<and> snd runResetRun = 2 \<and> pc (fst runResetRun) = 2 \<and> isRunning (fst runResetRun)"
  by code_simp

section \<open>Editing the program\<close>

text \<open>
  C9, as stated, fails where the program counter equals the new length. With the
  program counter at 3 in the starter program, removing instruction 0 leaves three
  instructions: the program counter does not exceed the new length, and yet it is reset
  to 0.
\<close>

theorem delete_at_new_length_counterexample:
  "pc atLastInstruction = 3
   \<and> length (instructions (deleteInstruction 0 atLastInstruction)) = 3
   \<and> \<not> pc atLastInstruction > int (length (instructions (deleteInstruction 0 atLastInstruction)))
   \<and> pc (deleteInstruction 0 atLastInstruction) = 0
   \<and> pc (deleteInstruction 0 atLastInstruction) \<noteq> pc atLastInstruction"
  by (simp add: atLastInstruction_def initialProcessor_def deleteInstruction_def splice1_def
      Let_def)

lemma splice1_valid:
  "0 \<le> i \<Longrightarrow> i < int (length xs) \<Longrightarrow> splice1 i xs = take (nat i) xs @ drop (Suc (nat i)) xs"
  by (simp add: splice1_def Let_def min_def nat_add_distrib)

text \<open>
  C9, amended. Removing the instruction at a valid index takes exactly that instruction
  out of the program; the program counter is reset to 0 if it is then greater than or
  equal to the new length of the program, and is left unchanged otherwise.
\<close>

theorem delete_resets_pc:
  "pc (deleteInstruction i s)
     = (if pc s \<ge> int (length (instructions (deleteInstruction i s))) then 0 else pc s)
   \<and> (0 \<le> i \<and> i < int (length (instructions s)) \<longrightarrow>
        instructions (deleteInstruction i s)
          = take (nat i) (instructions s) @ drop (Suc (nat i)) (instructions s)
        \<and> length (instructions (deleteInstruction i s)) = length (instructions s) - 1)"
proof -
  have ins: "instructions (deleteInstruction i s) = splice1 i (instructions s)"
    by (simp add: deleteInstruction_def Let_def)
  have pc': "pc (deleteInstruction i s)
      = (if pc s \<ge> int (length (instructions (deleteInstruction i s))) then 0 else pc s)"
    by (simp add: deleteInstruction_def Let_def)
  have "instructions (deleteInstruction i s)
        = take (nat i) (instructions s) @ drop (Suc (nat i)) (instructions s)
      \<and> length (instructions (deleteInstruction i s)) = length (instructions s) - 1"
    if "0 \<le> i" and "i < int (length (instructions s))"
    using that ins by (auto simp add: splice1_valid)
  with pc' show ?thesis
    by blast
qed

theorem delete_resets_pc_witness:
  "pc (deleteInstruction 3 finishedProgram) = 0
   \<and> instructions (deleteInstruction 3 finishedProgram)
       = [''addi x1, x0, 10'', ''addi x2, x0, 20'', ''add x3, x1, x2'']
   \<and> pc (deleteInstruction 3 (initialProcessor\<lparr>pc := 2\<rparr>)) = 2"
  using delete_resets_pc [of 3 finishedProgram]
    delete_resets_pc [of 3 "initialProcessor\<lparr>pc := 2\<rparr>"]
  by (simp add: finishedProgram_def initialProcessor_def)

end
